theory Spec2Isabelle
  imports Complex_Main "HOL-Library.Sublist"
begin

section \<open>Instants and the Date operations the components use\<close>

text \<open>
  A JavaScript \<^verbatim>\<open>Date\<close> is an instant: the integer number of milliseconds since the epoch
  that \<^verbatim>\<open>getTime()\<close> returns, and two dates compare by that number. The local wall clock
  is the instant shifted by a fixed offset \<open>tz\<close> (milliseconds, local = UTC + \<open>tz\<close>), a
  parameter of every operation that reads or writes local fields; daylight-saving
  transitions are outside this model. An appointment's \<^verbatim>\<open>startTime\<close> and \<^verbatim>\<open>endTime\<close> are
  the instants that \<^verbatim>\<open>new Date(...)\<close> makes of them.
\<close>

type_synonym instant = int

definition msPerMinute :: int where
  "msPerMinute = 1000 * 60"

definition msPerHour :: int where
  "msPerHour = 1000 * 60 * 60"

definition msPerDay :: int where
  "msPerDay = 1000 * 60 * 60 * 24"

definition localMidnight :: "int \<Rightarrow> instant \<Rightarrow> instant" where
  "localMidnight tz t = t - (t + tz) mod msPerDay"

text \<open>\<^verbatim>\<open>d.setHours(h, m, s, ms)\<close>: the same local day, the given time of day (fields out of
  range carry over, as the linear formula does).\<close>

definition setHours :: "int \<Rightarrow> instant \<Rightarrow> int \<Rightarrow> int \<Rightarrow> int \<Rightarrow> int \<Rightarrow> instant" where
  "setHours tz t h m s ms = localMidnight tz t + h * msPerHour + m * msPerMinute + s * 1000 + ms"

definition getMinutes :: "int \<Rightarrow> instant \<Rightarrow> int" where
  "getMinutes tz t = ((t + tz) mod msPerHour) div msPerMinute"

text \<open>\<^verbatim>\<open>d.setMinutes(m)\<close>: replaces the minute field and keeps the others.\<close>

definition setMinutes :: "int \<Rightarrow> instant \<Rightarrow> int \<Rightarrow> instant" where
  "setMinutes tz t m = t - getMinutes tz t * msPerMinute + m * msPerMinute"

text \<open>\<^verbatim>\<open>d.getDay()\<close>: the local day of the week, Sunday = 0 (1 January 1970 was a Thursday).\<close>

definition getDay :: "int \<Rightarrow> instant \<Rightarrow> int" where
  "getDay tz t = ((t + tz) div msPerDay + 4) mod 7"

text \<open>\<^verbatim>\<open>d.setDate(d.getDate() + n)\<close>: \<open>n\<close> calendar days later at the same wall-clock time,
  which is \<open>n\<close> times 24 hours under a fixed offset.\<close>

definition setDatePlus :: "instant \<Rightarrow> int \<Rightarrow> instant" where
  "setDatePlus t n = t + n * msPerDay"

text \<open>The two functions of the date-fns library that ScheduleView calls:
  \<^verbatim>\<open>addDays(date, amount)\<close> is \<^verbatim>\<open>date.setDate(date.getDate() + amount)\<close> on a copy, and
  \<^verbatim>\<open>startOfWeek(date, {weekStartsOn})\<close> steps back to the last day whose \<^verbatim>\<open>getDay()\<close> is
  \<^verbatim>\<open>weekStartsOn\<close> and sets the time of day to 00:00:00.000.\<close>

definition addDays :: "instant \<Rightarrow> int \<Rightarrow> instant" where
  "addDays date amount = setDatePlus date amount"

definition startOfWeek :: "int \<Rightarrow> instant \<Rightarrow> int \<Rightarrow> instant" where
  "startOfWeek tz date weekStartsOn =
     (let day = getDay tz date;
          diff = (if day < weekStartsOn then 7 else 0) + day - weekStartsOn
      in setHours tz (setDatePlus date (- diff)) 0 0 0 0)"

section \<open>The data model\<close>

text \<open>
  The types module is not among the sources; the records have the fields the components
  read and the spec's data model lists. \<open>id'\<close> and \<open>notes'\<close> are the fields \<^verbatim>\<open>id\<close> and
  \<^verbatim>\<open>notes\<close> (an optional text). A populated appointment is an appointment extended with
  the resolved patient and doctor.
\<close>

record Doctor =
  doctor_id :: string
  doctor_name :: string
  specialty :: string
  email :: string
  phone :: string

record Patient =
  patient_id :: string
  name :: string

record Appointment =
  id' :: string
  doctorId :: string
  patientId :: string
  startTime :: instant
  endTime :: instant
  type :: string
  notes' :: "string option"

record PopulatedAppointment = Appointment +
  patient :: Patient
  doctor :: Doctor

record TimeSlot =
  start :: instant
  end' :: instant
  label :: string

record CalendarConfig =
  startHour :: int
  endHour :: int
  slotDuration :: int

text \<open>Modelled from the spec: the constant \<^verbatim>\<open>DEFAULT_CALENDAR_CONFIG\<close> of the types module,
  which is not among the sources. The spec gives the default configuration as 8 to 18 h
  at 30-minute granularity (the comments of DayView say the same).\<close>

definition DEFAULT_CALENDAR_CONFIG :: CalendarConfig where
  "DEFAULT_CALENDAR_CONFIG = \<lparr>startHour = 8, endHour = 18, slotDuration = 30\<rparr>"

section \<open>DayView\<close>

subsection \<open>The slot generator\<close>

text \<open>
  The \<^verbatim>\<open>timeSlots\<close> memo is two nested \<^verbatim>\<open>for\<close> loops that push onto \<^verbatim>\<open>slots\<close>. The
  configuration is a parameter, and so is \<open>fmt\<close>, the rendering of an instant by date-fns's
  \<^verbatim>\<open>format(start, 'h:mm a')\<close>. The inner loop does not end when \<open>slotDuration\<close> is not
  positive, so both loops are partial functions: \<open>None\<close> is not returning.
\<close>

partial_function (option) minuteLoop ::
  "CalendarConfig \<Rightarrow> int \<Rightarrow> (instant \<Rightarrow> string) \<Rightarrow> instant \<Rightarrow> int \<Rightarrow> int \<Rightarrow> TimeSlot list
     \<Rightarrow> TimeSlot list option" where
  "minuteLoop cfg tz fmt date hour minute slots =
     (if minute < 60 then
        (let start = setHours tz date hour minute 0 0;
             end = setMinutes tz start (getMinutes tz start + slotDuration cfg);
             label = fmt start
         in minuteLoop cfg tz fmt date hour (minute + slotDuration cfg)
              (slots @ [\<lparr>start = start, end' = end, label = label\<rparr>]))
      else Some slots)"

partial_function (option) hourLoop ::
  "CalendarConfig \<Rightarrow> int \<Rightarrow> (instant \<Rightarrow> string) \<Rightarrow> instant \<Rightarrow> int \<Rightarrow> TimeSlot list
     \<Rightarrow> TimeSlot list option" where
  "hourLoop cfg tz fmt date hour slots =
     (if hour < endHour cfg then
        Option.bind (minuteLoop cfg tz fmt date hour 0 slots)
          (\<lambda>slots'. hourLoop cfg tz fmt date (hour + 1) slots')
      else Some slots)"

declare minuteLoop.simps [code] hourLoop.simps [code]

definition timeSlots ::
  "CalendarConfig \<Rightarrow> int \<Rightarrow> (instant \<Rightarrow> string) \<Rightarrow> instant \<Rightarrow> TimeSlot list option" where
  "timeSlots cfg tz fmt date = hourLoop cfg tz fmt date (startHour cfg) []"

subsection \<open>Bucketing, duration, span and position\<close>

definition getAppointmentsForSlot ::
  "PopulatedAppointment list \<Rightarrow> TimeSlot \<Rightarrow> PopulatedAppointment list" where
  "getAppointmentsForSlot populatedAppointments slot =
     filter (\<lambda>appointment.
        let appointmentStart = startTime appointment
        in appointmentStart \<ge> start slot \<and> appointmentStart < end' slot)
       populatedAppointments"

text \<open>
  JavaScript numbers are modelled as exact rationals: the quotients below are taken
  without the rounding of binary floating point. \<^verbatim>\<open>Math.round\<close> rounds to the nearest
  integer, a half towards plus infinity; \<^verbatim>\<open>Math.ceil\<close> is the ceiling. With a
  \<open>slotDuration\<close> of zero JavaScript's division gives an infinity or NaN, which a rational
  cannot be: the functions below mean the code for a non-zero \<open>slotDuration\<close>.
\<close>

definition Math_round :: "rat \<Rightarrow> int" where
  "Math_round x = \<lfloor>x + 1 / 2\<rfloor>"

definition Math_ceil :: "rat \<Rightarrow> int" where
  "Math_ceil x = \<lceil>x\<rceil>"

definition getAppointmentDuration :: "'a Appointment_scheme \<Rightarrow> int" where
  "getAppointmentDuration appointment =
     (let start = startTime appointment;
          end = endTime appointment
      in Math_round (of_int (end - start) / (1000 * 60)))"

definition getAppointmentSlotSpan :: "CalendarConfig \<Rightarrow> 'a Appointment_scheme \<Rightarrow> int" where
  "getAppointmentSlotSpan cfg appointment =
     (let duration = getAppointmentDuration appointment
      in Math_ceil (of_int duration / of_int (slotDuration cfg)))"

record Position =
  top' :: rat
  height :: rat

definition getAppointmentPosition ::
  "CalendarConfig \<Rightarrow> 'a Appointment_scheme \<Rightarrow> TimeSlot \<Rightarrow> Position" where
  "getAppointmentPosition cfg appointment slot =
     (let appointmentStart = startTime appointment;
          appointmentEnd = endTime appointment;
          slotHeight = 70;
          minutesFromSlotStart = of_int (appointmentStart - start slot) / (1000 * 60);
          appointmentDurationMinutes = of_int (appointmentEnd - appointmentStart) / (1000 * 60);
          top = (minutesFromSlotStart / of_int (slotDuration cfg)) * slotHeight;
          height = min ((appointmentDurationMinutes / of_int (slotDuration cfg)) * slotHeight)
                       (slotHeight - top - 4)
      in \<lparr>top' = max 0 top, height = max 20 height\<rparr>)"

subsection \<open>What the component renders\<close>

text \<open>
  Of the rendered tree the model keeps the timeline rows (each slot with the appointment
  cards drawn in it) and whether the ``No appointments today'' block is drawn.
  \<open>getPopulatedAppointments\<close> is the appointment service's function of that name; the
  service is not among the sources, so the function is a parameter.
\<close>

record DayViewRender =
  rows :: "(TimeSlot \<times> PopulatedAppointment list) list"
  emptyState :: bool

definition DayView ::
  "(Appointment list \<Rightarrow> PopulatedAppointment list) \<Rightarrow> CalendarConfig \<Rightarrow> int \<Rightarrow> (instant \<Rightarrow> string)
     \<Rightarrow> Appointment list \<Rightarrow> instant \<Rightarrow> DayViewRender option" where
  "DayView getPopulatedAppointments cfg tz fmt appointments date =
     (let populatedAppointments = getPopulatedAppointments appointments
      in map_option
           (\<lambda>slots.
              \<lparr>rows = map (\<lambda>slot. (slot, getAppointmentsForSlot populatedAppointments slot)) slots,
               emptyState = (length appointments = 0)\<rparr>)
           (timeSlots cfg tz fmt date))"

section \<open>ScheduleView: the search filter\<close>

text \<open>
  Strings are lists of characters. Of JavaScript's string methods the filter uses
  \<^verbatim>\<open>trim\<close> (strips white space at both ends), \<^verbatim>\<open>toLowerCase\<close> and \<^verbatim>\<open>includes\<close> (a
  contiguous substring). They are modelled on ASCII text: white space is the six ASCII
  white-space characters, and lower-casing maps A to Z onto a to z and keeps every other
  character.
\<close>

definition isWhiteSpace :: "char \<Rightarrow> bool" where
  "isWhiteSpace c = (of_char c \<in> {9, 10, 11, 12, 13, 32 :: nat})"

definition trim :: "string \<Rightarrow> string" where
  "trim s = rev (dropWhile isWhiteSpace (rev (dropWhile isWhiteSpace s)))"

definition lowerChar :: "char \<Rightarrow> char" where
  "lowerChar c =
     (let n = of_char c :: nat in if 65 \<le> n \<and> n \<le> 90 then char_of (n + 32) else c)"

definition toLowerCase :: "string \<Rightarrow> string" where
  "toLowerCase s = map lowerChar s"

fun includes' :: "string \<Rightarrow> string \<Rightarrow> bool" where
  "includes' [] q = (q = [])"
| "includes' (c # cs) q = (prefix q (c # cs) \<or> includes' cs q)"

text \<open>The predicate of \<^verbatim>\<open>populatedAppointments.filter\<close>. \<^verbatim>\<open>x?.toLowerCase() || ''\<close> is the
  lower-cased text, and the empty string when the text is absent; of the three fields only
  \<^verbatim>\<open>notes\<close> is optional in the data model.\<close>

definition matchesQuery :: "string \<Rightarrow> PopulatedAppointment \<Rightarrow> bool" where
  "matchesQuery query appointment =
     (let patientName = toLowerCase (name (patient appointment));
          appointmentType = toLowerCase (type appointment);
          notes = (case notes' appointment of None \<Rightarrow> [] | Some n \<Rightarrow> toLowerCase n)
      in includes' patientName query \<or> includes' appointmentType query \<or> includes' notes query)"

text \<open>The \<^verbatim>\<open>appointments\<close> memo of ScheduleView: the list handed to the views.
  \<open>getPopulatedAppointments\<close> is the service's function, a parameter.\<close>

definition ScheduleView_appointments ::
  "(Appointment list \<Rightarrow> PopulatedAppointment list) \<Rightarrow> string \<Rightarrow> Appointment list \<Rightarrow> Appointment list" where
  "ScheduleView_appointments getPopulatedAppointments searchQuery rawAppointments =
     (let populatedAppointments = getPopulatedAppointments rawAppointments
      in if trim searchQuery = [] then rawAppointments
         else
           (let query = toLowerCase searchQuery;
                filteredPopulated = filter (matchesQuery query) populatedAppointments
            in filter (\<lambda>apt. list_ex (\<lambda>filtered. id' filtered = id' apt) filteredPopulated)
                 rawAppointments))"

section \<open>The useAppointments hook\<close>

text \<open>
  A call of the appointment service returns a list or throws; what is thrown is an
  \<^verbatim>\<open>Error\<close> object (with its message) or some other value. The service is not among
  the sources: its three functions that a fetch cycle calls are parameters.
\<close>

datatype JsError = Error string

datatype thrown = ThrownError JsError | ThrownOther

record AppointmentService =
  getAppointmentsByDoctorAndDate :: "string \<Rightarrow> instant \<Rightarrow> thrown + Appointment list"
  getAppointmentsByDoctorAndDateRange :: "string \<Rightarrow> instant \<Rightarrow> instant \<Rightarrow> thrown + Appointment list"
  sortAppointmentsByTime :: "Appointment list \<Rightarrow> thrown + Appointment list"

record UseAppointmentsParams =
  param_doctorId :: string
  param_date :: instant
  startDate :: "instant option"
  endDate :: "instant option"

record HookState =
  appointments :: "Appointment list"
  loading :: bool
  error :: "JsError option"

text \<open>The calls a fetch cycle makes to the service, in order.\<close>

datatype serviceCall =
  CallByDoctorAndDateRange string instant instant
| CallByDoctorAndDate string instant
| CallSort "Appointment list"

text \<open>The \<^verbatim>\<open>catch\<close> block and the \<^verbatim>\<open>finally\<close> block.\<close>

definition catchBlock :: "thrown \<Rightarrow> HookState \<Rightarrow> HookState" where
  "catchBlock err st =
     st\<lparr>error := Some (case err of ThrownError e \<Rightarrow> e
                               | ThrownOther \<Rightarrow> Error ''Failed to fetch appointments''),
        appointments := []\<rparr>"

definition finallyBlock :: "HookState \<Rightarrow> HookState" where
  "finallyBlock st = st\<lparr>loading := False\<rparr>"

text \<open>The query inside the \<^verbatim>\<open>try\<close> block: by range when both bounds are given, by the
  single date otherwise, with the call it makes. A \<^verbatim>\<open>Date\<close> object is truthy, so
  \<^verbatim>\<open>startDate && endDate\<close> asks whether both are given.\<close>

definition queryStore ::
  "AppointmentService \<Rightarrow> UseAppointmentsParams \<Rightarrow> (thrown + Appointment list) \<times> serviceCall" where
  "queryStore service params =
     (case (startDate params, endDate params) of
        (Some s, Some e) \<Rightarrow>
          (getAppointmentsByDoctorAndDateRange service (param_doctorId params) s e,
           CallByDoctorAndDateRange (param_doctorId params) s e)
      | _ \<Rightarrow>
          (getAppointmentsByDoctorAndDate service (param_doctorId params) (param_date params),
           CallByDoctorAndDate (param_doctorId params) (param_date params)))"

text \<open>One run of \<^verbatim>\<open>fetchAppointments\<close>: the state it leaves and the service calls it
  made.\<close>

definition fetchAppointments ::
  "AppointmentService \<Rightarrow> UseAppointmentsParams \<Rightarrow> HookState \<Rightarrow> HookState \<times> serviceCall list" where
  "fetchAppointments service params st =
     (let st1 = st\<lparr>loading := True\<rparr>;
          st2 = st1\<lparr>error := None\<rparr>;
          (fetched, call) = queryStore service params
      in case fetched of
           Inl err \<Rightarrow> (finallyBlock (catchBlock err st2), [call])
         | Inr fetchedAppointments \<Rightarrow>
             (case sortAppointmentsByTime service fetchedAppointments of
                Inl err \<Rightarrow> (finallyBlock (catchBlock err st2), [call, CallSort fetchedAppointments])
              | Inr sortedAppointments \<Rightarrow>
                  (finallyBlock (st2\<lparr>appointments := sortedAppointments\<rparr>),
                   [call, CallSort fetchedAppointments])))"

text \<open>The parameters ScheduleView passes to the hook, and those of the hook for the
  week view, \<^verbatim>\<open>useWeekViewAppointments\<close>.\<close>

datatype CalendarView = Day | Week

definition getWeekStart :: "int \<Rightarrow> instant \<Rightarrow> instant" where
  "getWeekStart tz date = startOfWeek tz date 1"

definition ScheduleView_params :: "int \<Rightarrow> string \<Rightarrow> instant \<Rightarrow> CalendarView \<Rightarrow> UseAppointmentsParams" where
  "ScheduleView_params tz selectedDoctorId selectedDate view =
     (let weekStartDate = getWeekStart tz selectedDate
      in \<lparr>param_doctorId = selectedDoctorId,
          param_date = selectedDate,
          startDate = (if view = Week then Some weekStartDate else None),
          endDate = (if view = Week then Some (addDays weekStartDate 6) else None)\<rparr>)"

definition useWeekViewAppointments_params :: "int \<Rightarrow> string \<Rightarrow> instant \<Rightarrow> UseAppointmentsParams" where
  "useWeekViewAppointments_params tz doctor_Id weekStartDate =
     (let weekEndDate = setHours tz (setDatePlus weekStartDate 6) 23 59 59 999
      in \<lparr>param_doctorId = doctor_Id,
          param_date = weekStartDate,
          startDate = Some weekStartDate,
          endDate = Some weekEndDate\<rparr>)"

section \<open>The hook inside ScheduleView: renders and effect runs\<close>

text \<open>
  React's rules for the two hooks the code uses. A state setter schedules a render of the
  component when the value it is given is not the cell's value under \<^verbatim>\<open>Object.is\<close>; an
  effect runs after a render when the render is the first, or when one of its dependencies
  is not, under \<^verbatim>\<open>Object.is\<close>, what it was at the last run. Under \<^verbatim>\<open>Object.is\<close> two
  strings are equal when they have the same characters and two objects (a \<^verbatim>\<open>Date\<close>, an
  array) only when they are the same object, so an object is modelled with its identity, a
  natural number, and every \<^verbatim>\<open>new\<close> object or array literal takes the next unused one.
\<close>

datatype dep = DepString string | DepObject nat | DepUndefined

text \<open>The props of ScheduleView. The page keeps \<^verbatim>\<open>selectedDate\<close> in a state cell: it is
  the same \<^verbatim>\<open>Date\<close> object on every render.\<close>

record ScheduleViewProps =
  props_doctorId :: string
  props_dateRef :: nat
  props_date :: instant
  props_view :: CalendarView

text \<open>
  A mounted ScheduleView: the three state cells of the hook, the identity of the array in
  the \<^verbatim>\<open>appointments\<close> cell, the identity of the memoised \<^verbatim>\<open>weekStartDate\<close>
  (\<^verbatim>\<open>useMemo\<close> on \<^verbatim>\<open>selectedDate\<close> returns the same object while the props stay), the
  dependencies of the effect at its last run, the next unused identity, the calls made to
  the service so far, and whether a render is scheduled. \<open>mount\<close> is the component before
  its first render, the cells at their initial values.
\<close>

record Instance =
  cells :: HookState
  appointmentsArray :: nat
  weekStartRef :: nat
  lastDeps :: "dep list option"
  nextRef :: nat
  issued :: "serviceCall list"
  renderScheduled :: bool

definition mount :: Instance where
  "mount =
     \<lparr>cells = \<lparr>appointments = [], loading = True, error = None\<rparr>,
      appointmentsArray = 0, weekStartRef = 1, lastDeps = None, nextRef = 2, issued = [],
      renderScheduled = True\<rparr>"

text \<open>The dependency array \<^verbatim>\<open>[doctorId, date, startDate, endDate]\<close> of the effect, for the
  parameters ScheduleView passes.\<close>

definition effectDeps :: "ScheduleViewProps \<Rightarrow> nat \<Rightarrow> nat \<Rightarrow> dep list" where
  "effectDeps props weekStart endRef =
     [DepString (props_doctorId props),
      DepObject (props_dateRef props),
      (if props_view props = Week then DepObject weekStart else DepUndefined),
      (if props_view props = Week then DepObject endRef else DepUndefined)]"

text \<open>
  One render of ScheduleView and the effect after it. In the week view the render calls
  \<^verbatim>\<open>addDays(weekStartDate, 6)\<close>, which makes a new \<^verbatim>\<open>Date\<close>. When the effect runs, the
  cells become what \<open>fetchAppointments\<close> leaves. The array put in the \<^verbatim>\<open>appointments\<close>
  cell is the literal \<^verbatim>\<open>[]\<close> of the \<^verbatim>\<open>catch\<close> block, a new array, when that block ran
  (exactly then the error is not null); otherwise it is the array the service's sort
  returned, whose identity \<open>sortedArray\<close> gives from the next unused identity (the service
  is not among the sources). The error cell is compared by value.
\<close>

definition renderPass ::
  "int \<Rightarrow> AppointmentService \<Rightarrow> (nat \<Rightarrow> nat) \<Rightarrow> ScheduleViewProps \<Rightarrow> Instance \<Rightarrow> Instance" where
  "renderPass tz service sortedArray props inst =
     (let endRef = nextRef inst;
          inst1 = inst\<lparr>nextRef := (if props_view props = Week then nextRef inst + 1 else nextRef inst),
                       renderScheduled := False\<rparr>;
          deps = effectDeps props (weekStartRef inst) endRef
      in if lastDeps inst = Some deps then inst1
         else
           (let params = ScheduleView_params tz (props_doctorId props) (props_date props) (props_view props);
                (st, calls) = fetchAppointments service params (cells inst);
                caught = (error st \<noteq> None);
                array = (if caught then nextRef inst1 else sortedArray (nextRef inst1));
                changed = (array \<noteq> appointmentsArray inst \<or> loading st \<noteq> loading (cells inst)
                           \<or> error st \<noteq> error (cells inst))
            in inst1\<lparr>cells := st, appointmentsArray := array, lastDeps := Some deps,
                      nextRef := (if caught then nextRef inst1 + 1 else nextRef inst1),
                      issued := issued inst @ calls, renderScheduled := changed\<rparr>))"

text \<open>The first \<open>n\<close> renders, or fewer when no render is scheduled any more.\<close>

fun renders ::
  "nat \<Rightarrow> int \<Rightarrow> AppointmentService \<Rightarrow> (nat \<Rightarrow> nat) \<Rightarrow> ScheduleViewProps \<Rightarrow> Instance \<Rightarrow> Instance" where
  "renders 0 tz service sortedArray props inst = inst"
| "renders (Suc n) tz service sortedArray props inst =
     (if renderScheduled inst
      then renders n tz service sortedArray props (renderPass tz service sortedArray props inst)
      else inst)"

section \<open>Example data\<close>

text \<open>Concrete records on which the theorems are instantiated: a patient, a doctor, an
  appointment of a given id, interval, type and notes, and a resolver that joins every
  appointment with that patient and that doctor.\<close>

definition examplePatient :: Patient where
  "examplePatient = \<lparr>patient_id = ''pat-001'', name = ''John Smith''\<rparr>"

definition exampleDoctor :: Doctor where
  "exampleDoctor =
     \<lparr>doctor_id = ''doc-1'', doctor_name = ''Sarah Chen'', specialty = ''cardiology'',
      email = ''sarah.chen@hospital.com'', phone = ''555-0101''\<rparr>"

definition exampleAppointment ::
  "string \<Rightarrow> instant \<Rightarrow> instant \<Rightarrow> string \<Rightarrow> string option \<Rightarrow> Appointment" where
  "exampleAppointment i s e ty n =
     \<lparr>id' = i, doctorId = ''doc-1'', patientId = ''pat-001'', startTime = s, endTime = e,
      type = ty, notes' = n\<rparr>"

definition examplePopulated :: "Appointment \<Rightarrow> PopulatedAppointment" where
  "examplePopulated a =
     \<lparr>id' = id' a, doctorId = doctorId a, patientId = patientId a, startTime = startTime a,
      endTime = endTime a, type = type a, notes' = notes' a,
      patient = examplePatient, doctor = exampleDoctor\<rparr>"

definition exampleGetPopulatedAppointments :: "Appointment list \<Rightarrow> PopulatedAppointment list" where
  "exampleGetPopulatedAppointments as = map examplePopulated as"

text \<open>A service whose queries throw: the query by date throws a value that is not an
  \<^verbatim>\<open>Error\<close>, the query by range an \<^verbatim>\<open>Error\<close>.\<close>

definition failingService :: AppointmentService where
  "failingService =
     \<lparr>getAppointmentsByDoctorAndDate = (\<lambda>d t. Inl ThrownOther),
      getAppointmentsByDoctorAndDateRange = (\<lambda>d s e. Inl (ThrownError (Error ''store unreachable''))),
      sortAppointmentsByTime = (\<lambda>as. Inr as)\<rparr>"

text \<open>A label table in which, as in the appointment cards, the label of a type is not the
  type's own name: the type \<open>checkup\<close> is shown as ``General Checkup''.\<close>

definition exampleLabelOf :: "string \<Rightarrow> string" where
  "exampleLabelOf ty =
     (if ty = ''checkup'' then ''General Checkup''
      else if ty = ''consultation'' then ''Consultation''
      else if ty = ''follow-up'' then ''Follow-up''
      else if ty = ''procedure'' then ''Procedure''
      else ty)"

section \<open>Notions the statements use\<close>

text \<open>A slot is the half-open interval from its start to its end.\<close>

definition inSlot :: "TimeSlot \<Rightarrow> instant \<Rightarrow> bool" where
  "inSlot slot t = (start slot \<le> t \<and> t < end' slot)"

text \<open>The \<open>k\<close>-th half-hour slot counted from the instant \<open>base\<close>: the closed form of what
  the generator pushes under the default configuration.\<close>

definition slotAt :: "(instant \<Rightarrow> string) \<Rightarrow> instant \<Rightarrow> nat \<Rightarrow> TimeSlot" where
  "slotAt fmt base k =
     \<lparr>start = base + int k * (30 * msPerMinute), end' = base + (int k + 1) * (30 * msPerMinute),
      label = fmt (base + int k * (30 * msPerMinute))\<rparr>"

text \<open>The two quantities the position is computed from, in minutes: how long after the
  slot's start the appointment starts, and how long the appointment lasts (not rounded).\<close>

definition minutesFromSlotStart :: "'a Appointment_scheme \<Rightarrow> TimeSlot \<Rightarrow> rat" where
  "minutesFromSlotStart a slot = of_int (startTime a - start slot) / 60000"

definition durationMinutes :: "'a Appointment_scheme \<Rightarrow> rat" where
  "durationMinutes a = of_int (endTime a - startTime a) / 60000"

text \<open>A text contains a query as a case-insensitive substring when the lower-cased
  query is a contiguous part of the lower-cased text.\<close>

definition containsIgnoringCase :: "string \<Rightarrow> string \<Rightarrow> bool" where
  "containsIgnoringCase text q = sublist (toLowerCase q) (toLowerCase text)"

text \<open>The match as the spec words it: the patient's name, the display label of the
  appointment's type, or the notes. \<open>labelOf\<close> is the label column of
  \<^verbatim>\<open>APPOINTMENT_TYPE_CONFIG\<close> (read by the appointment card; the table is in the types
  module, not among the sources), a parameter.\<close>

definition matchesNameLabelNotes :: "(string \<Rightarrow> string) \<Rightarrow> string \<Rightarrow> PopulatedAppointment \<Rightarrow> bool" where
  "matchesNameLabelNotes labelOf q p =
     (containsIgnoringCase (name (patient p)) q
      \<or> containsIgnoringCase (labelOf (type p)) q
      \<or> (case notes' p of None \<Rightarrow> False | Some n \<Rightarrow> containsIgnoringCase n q))"

text \<open>The match that reads the type value itself instead of its label.\<close>

definition matchesNameTypeNotes :: "string \<Rightarrow> PopulatedAppointment \<Rightarrow> bool" where
  "matchesNameTypeNotes q p =
     (containsIgnoringCase (name (patient p)) q
      \<or> containsIgnoringCase (type p) q
      \<or> (case notes' p of None \<Rightarrow> False | Some n \<Rightarrow> containsIgnoringCase n q))"

text \<open>An instant lies in the range a set of hook parameters asks the store for when both
  bounds are given and it is between them, bounds included.\<close>

definition inQueriedRange :: "UseAppointmentsParams \<Rightarrow> instant \<Rightarrow> bool" where
  "inQueriedRange params t =
     (case (startDate params, endDate params) of
        (Some s, Some e) \<Rightarrow> s \<le> t \<and> t \<le> e
      | _ \<Rightarrow> False)"

section \<open>The generator under the default configuration\<close>

lemma setMinutes_add: "setMinutes tz t (getMinutes tz t + d) = t + d * msPerMinute"
  by (simp add: setMinutes_def algebra_simps)

lemma minuteLoop_default:
  "minuteLoop DEFAULT_CALENDAR_CONFIG tz fmt date hour 0 slots =
     Some (slots @ [slotAt fmt (setHours tz date hour 0 0 0) 0, slotAt fmt (setHours tz date hour 0 0 0) 1])"
  by (simp add: minuteLoop.simps [of _ _ _ _ _ 0] minuteLoop.simps [of _ _ _ _ _ 30]
      minuteLoop.simps [of _ _ _ _ _ 60]
      DEFAULT_CALENDAR_CONFIG_def Let_def setMinutes_add setHours_def slotAt_def msPerMinute_def)

lemma hourLoop_step:
  "hour < 18 \<Longrightarrow> hourLoop DEFAULT_CALENDAR_CONFIG tz fmt date hour slots =
     hourLoop DEFAULT_CALENDAR_CONFIG tz fmt date (hour + 1)
       (slots @ [slotAt fmt (setHours tz date hour 0 0 0) 0, slotAt fmt (setHours tz date hour 0 0 0) 1])"
  by (subst hourLoop.simps) (simp add: minuteLoop_default, simp add: DEFAULT_CALENDAR_CONFIG_def)

lemma hourLoop_done:
  "hourLoop DEFAULT_CALENDAR_CONFIG tz fmt date 18 slots = Some slots"
  by (subst hourLoop.simps) (simp add: DEFAULT_CALENDAR_CONFIG_def)

lemma slotAt_hour:
  "8 \<le> h \<Longrightarrow> slotAt fmt (setHours tz date h 0 0 0) k =
     slotAt fmt (setHours tz date 8 0 0 0) (nat (2 * (h - 8)) + k)"
  by (simp add: slotAt_def setHours_def msPerHour_def msPerMinute_def algebra_simps)

text \<open>The outer loop, entered \<open>n\<close> hours before 18 h, appends the last \<open>2 * n\<close> slots.\<close>

lemma hourLoop_from:
  "n \<le> 10 \<Longrightarrow> hourLoop DEFAULT_CALENDAR_CONFIG tz fmt date (18 - int n) slots =
     Some (slots @ map (slotAt fmt (setHours tz date 8 0 0 0)) [20 - 2 * n ..< 20])"
proof (induction n arbitrary: slots)
  case 0
  then show ?case by (simp add: hourLoop_done)
next
  case (Suc n)
  let ?h = "18 - int (Suc n)"
  let ?two = "[slotAt fmt (setHours tz date ?h 0 0 0) 0, slotAt fmt (setHours tz date ?h 0 0 0) 1]"
  have h: "?h < 18" "8 \<le> ?h" "?h + 1 = 18 - int n"
    using Suc.prems by simp_all
  have k: "nat (2 * (?h - 8)) = 18 - 2 * n"
    using Suc.prems by simp
  have l: "[20 - 2 * Suc n ..< 20] = (18 - 2 * n) # (19 - 2 * n) # [20 - 2 * n ..< 20]"
  proof -
    have "20 - 2 * Suc n = 18 - 2 * n" "Suc (18 - 2 * n) = 19 - 2 * n"
      "Suc (19 - 2 * n) = 20 - 2 * n" "18 - 2 * n < 20" "19 - 2 * n < 20"
      using Suc.prems by simp_all
    then show ?thesis by (metis upt_conv_Cons)
  qed
  have "hourLoop DEFAULT_CALENDAR_CONFIG tz fmt date ?h slots =
        hourLoop DEFAULT_CALENDAR_CONFIG tz fmt date (18 - int n) (slots @ ?two)"
    using hourLoop_step [OF h(1)] h(3) by simp
  also have "\<dots> = Some ((slots @ ?two) @ map (slotAt fmt (setHours tz date 8 0 0 0)) [20 - 2 * n ..< 20])"
    using Suc.IH Suc.prems by simp
  also have "\<dots> = Some (slots @ map (slotAt fmt (setHours tz date 8 0 0 0)) [20 - 2 * Suc n ..< 20])"
  proof -
    have "19 - 2 * n = Suc (18 - 2 * n)"
      using Suc.prems by simp
    then show ?thesis
      unfolding l slotAt_hour [OF h(2)] k by simp
  qed
  finally show ?case .
qed

lemma timeSlots_default:
  "timeSlots DEFAULT_CALENDAR_CONFIG tz fmt date =
     Some (map (slotAt fmt (setHours tz date 8 0 0 0)) [0..<20])"
  using hourLoop_from [of 10 tz fmt date "[]"]
  by (simp add: timeSlots_def DEFAULT_CALENDAR_CONFIG_def)

section \<open>The slots of the default configuration as intervals\<close>

lemma default_slots_nth:
  "i < 20 \<Longrightarrow> map (slotAt fmt b) [0..<20] ! i = slotAt fmt b i"
  by (simp del: upt_Suc)

lemma default_slot_start_numeral:
  "start (map (slotAt fmt b) [0..<20] ! 2) = b + 3600000"
  "start (map (slotAt fmt b) [0..<20] ! 1) = b + 1800000"
  by (simp_all add: default_slots_nth slotAt_def msPerMinute_def del: upt_Suc)

lemma setHours_18: "setHours tz date 18 0 0 0 = setHours tz date 8 0 0 0 + 10 * msPerHour"
  by (simp add: setHours_def)

lemma inSlot_slotAt:
  "inSlot (slotAt fmt b k) t \<longleftrightarrow> b + int k * 1800000 \<le> t \<and> t < b + (int k + 1) * 1800000"
  by (simp add: inSlot_def slotAt_def msPerMinute_def)

lemma inSlot_slotAt_unique:
  assumes "inSlot (slotAt fmt b i) t" and "inSlot (slotAt fmt b j) t"
  shows "i = j"
proof -
  have "int i * 1800000 < (int j + 1) * 1800000" "int j * 1800000 < (int i + 1) * 1800000"
    using assms unfolding inSlot_slotAt by linarith+
  then have "int i < int j + 1" "int j < int i + 1"
    by simp_all
  then show ?thesis by simp
qed

lemma inSlot_slotAt_window:
  "(\<exists>i<20. inSlot (slotAt fmt b i) t) \<longleftrightarrow> b \<le> t \<and> t < b + 10 * msPerHour"
proof
  assume "\<exists>i<20. inSlot (slotAt fmt b i) t"
  then obtain i where i: "i < 20" "b + int i * 1800000 \<le> t" "t < b + (int i + 1) * 1800000"
    unfolding inSlot_slotAt by blast
  have "0 \<le> int i * 1800000" "(int i + 1) * 1800000 \<le> 20 * 1800000"
    using i(1) by simp_all
  then show "b \<le> t \<and> t < b + 10 * msPerHour"
    using i(2,3) unfolding msPerHour_def by linarith
next
  assume w: "b \<le> t \<and> t < b + 10 * msPerHour"
  define q where "q = (t - b) div 1800000"
  define r where "r = (t - b) mod 1800000"
  have qr: "t - b = q * 1800000 + r" "0 \<le> r" "r < 1800000"
    by (simp_all add: q_def r_def)
  have "0 \<le> t - b" "t - b < 20 * 1800000"
    using w unfolding msPerHour_def by simp_all
  then have "(-1) * 1800000 < q * 1800000" "q * 1800000 < 20 * 1800000"
    using qr by linarith+
  then have "-1 < q" "q < 20"
    unfolding mult_less_cancel_right by simp_all
  then have q: "0 \<le> q" "q < 20"
    by simp_all
  then have "nat q < 20" by simp
  moreover have "inSlot (slotAt fmt b (nat q)) t"
    using q qr unfolding inSlot_slotAt by (simp add: algebra_simps)
  ultimately show "\<exists>i<20. inSlot (slotAt fmt b i) t" by blast
qed

section \<open>Bucketing appointments into slots\<close>

lemma set_getAppointmentsForSlot:
  "set (getAppointmentsForSlot populatedAppointments slot) =
     {A \<in> set populatedAppointments. inSlot slot (startTime A)}"
  by (auto simp add: getAppointmentsForSlot_def inSlot_def Let_def)

text \<open>
  Claim C1. For every slot the day view generates (default configuration) and every
  populated appointment, \<open>getAppointmentsForSlot\<close> returns the appointment for the slot
  exactly when the slot's start is at or before the appointment's start and the
  appointment's start is before the slot's end. An appointment that starts exactly at
  the start of a slot is returned for that slot and not for the one before it, which ends
  at that instant. No appointment is returned for two different slots.
\<close>

theorem getAppointmentsForSlot_bucketing:
  "\<exists>slots. timeSlots DEFAULT_CALENDAR_CONFIG tz fmt date = Some slots
     \<and> (\<forall>S\<in>set slots. \<forall>A\<in>set populatedAppointments.
           A \<in> set (getAppointmentsForSlot populatedAppointments S)
             \<longleftrightarrow> start S \<le> startTime A \<and> startTime A < end' S)
     \<and> (\<forall>j<length slots. \<forall>A\<in>set populatedAppointments. startTime A = start (slots ! j) \<longrightarrow>
           A \<in> set (getAppointmentsForSlot populatedAppointments (slots ! j))
           \<and> (0 < j \<longrightarrow> end' (slots ! (j - 1)) = start (slots ! j)
                 \<and> A \<notin> set (getAppointmentsForSlot populatedAppointments (slots ! (j - 1)))))
     \<and> (\<forall>i<length slots. \<forall>j<length slots. \<forall>A.
           A \<in> set (getAppointmentsForSlot populatedAppointments (slots ! i))
           \<and> A \<in> set (getAppointmentsForSlot populatedAppointments (slots ! j)) \<longrightarrow> i = j)"
proof -
  let ?b = "setHours tz date 8 0 0 0"
  define slots where "slots = map (slotAt fmt ?b) [0..<20]"
  have nth: "slots ! i = slotAt fmt ?b i" if "i < 20" for i
    unfolding slots_def using that by (rule default_slots_nth)
  have len: "length slots = 20"
    unfolding slots_def by (simp del: upt_Suc)
  have 0: "timeSlots DEFAULT_CALENDAR_CONFIG tz fmt date = Some slots"
    unfolding slots_def by (rule timeSlots_default)
  have 1: "\<forall>S\<in>set slots. \<forall>A\<in>set populatedAppointments.
           A \<in> set (getAppointmentsForSlot populatedAppointments S)
             \<longleftrightarrow> start S \<le> startTime A \<and> startTime A < end' S"
    by (simp add: set_getAppointmentsForSlot inSlot_def)
  have 2: "\<forall>j<length slots. \<forall>A\<in>set populatedAppointments. startTime A = start (slots ! j) \<longrightarrow>
           A \<in> set (getAppointmentsForSlot populatedAppointments (slots ! j))
           \<and> (0 < j \<longrightarrow> end' (slots ! (j - 1)) = start (slots ! j)
                 \<and> A \<notin> set (getAppointmentsForSlot populatedAppointments (slots ! (j - 1))))"
  proof (intro allI impI ballI)
    fix j A
    assume j: "j < length slots" and A: "A \<in> set populatedAppointments"
      and eq: "startTime A = start (slots ! j)"
    have sj: "slots ! j = slotAt fmt ?b j"
      using j len nth by simp
    have "inSlot (slots ! j) (startTime A)"
      unfolding eq sj inSlot_def by (simp add: slotAt_def msPerMinute_def)
    moreover have "end' (slots ! (j - 1)) = start (slots ! j)
        \<and> \<not> inSlot (slots ! (j - 1)) (startTime A)" if "0 < j"
    proof -
      have "slots ! (j - 1) = slotAt fmt ?b (j - 1)"
        using j len nth by simp
      moreover have "int (j - 1) + 1 = int j"
        using that by simp
      ultimately show ?thesis
        unfolding eq sj inSlot_def by (simp add: slotAt_def)
    qed
    ultimately show "A \<in> set (getAppointmentsForSlot populatedAppointments (slots ! j))
           \<and> (0 < j \<longrightarrow> end' (slots ! (j - 1)) = start (slots ! j)
                 \<and> A \<notin> set (getAppointmentsForSlot populatedAppointments (slots ! (j - 1))))"
      using A by (simp add: set_getAppointmentsForSlot)
  qed
  have 3: "\<forall>i<length slots. \<forall>j<length slots. \<forall>A.
           A \<in> set (getAppointmentsForSlot populatedAppointments (slots ! i))
           \<and> A \<in> set (getAppointmentsForSlot populatedAppointments (slots ! j)) \<longrightarrow> i = j"
  proof (intro allI impI)
    fix i j A
    assume i: "i < length slots" and j: "j < length slots"
      and m: "A \<in> set (getAppointmentsForSlot populatedAppointments (slots ! i))
           \<and> A \<in> set (getAppointmentsForSlot populatedAppointments (slots ! j))"
    have "inSlot (slotAt fmt ?b i) (startTime A)" "inSlot (slotAt fmt ?b j) (startTime A)"
      using m i j len nth by (simp_all add: set_getAppointmentsForSlot)
    then show "i = j" by (rule inSlot_slotAt_unique)
  qed
  from 0 1 2 3 show ?thesis
    by (intro exI [of _ slots] conjI)
qed


theorem getAppointmentsForSlot_bucketing_witness:
  "\<exists>slots. timeSlots DEFAULT_CALENDAR_CONFIG 0 (\<lambda>t. []) 1704844800000 = Some slots
     \<and> start (slots ! 2) = 1704877200000
     \<and> end' (slots ! 1) = 1704877200000
     \<and> examplePopulated (exampleAppointment ''apt-1'' 1704877200000 1704879000000 ''checkup'' None)
          \<in> set (getAppointmentsForSlot
                 [examplePopulated (exampleAppointment ''apt-1'' 1704877200000 1704879000000 ''checkup'' None)]
                 (slots ! 2))
     \<and> examplePopulated (exampleAppointment ''apt-1'' 1704877200000 1704879000000 ''checkup'' None)
          \<notin> set (getAppointmentsForSlot
                 [examplePopulated (exampleAppointment ''apt-1'' 1704877200000 1704879000000 ''checkup'' None)]
                 (slots ! 1))"
proof -
  let ?d = "1704844800000 :: int"
  let ?A = "examplePopulated (exampleAppointment ''apt-1'' 1704877200000 1704879000000 ''checkup'' None)"
  obtain slots where s: "timeSlots DEFAULT_CALENDAR_CONFIG 0 (\<lambda>t. []) ?d = Some slots"
    and b: "\<forall>j<length slots. \<forall>A\<in>set [?A]. startTime A = start (slots ! j) \<longrightarrow>
           A \<in> set (getAppointmentsForSlot [?A] (slots ! j))
           \<and> (0 < j \<longrightarrow> end' (slots ! (j - 1)) = start (slots ! j)
                 \<and> A \<notin> set (getAppointmentsForSlot [?A] (slots ! (j - 1))))"
    using getAppointmentsForSlot_bucketing [of 0 "\<lambda>t. []" ?d "[?A]"] by blast
  have eq: "slots = map (slotAt (\<lambda>t. []) (setHours 0 ?d 8 0 0 0)) [0..<20]"
    using s timeSlots_default [of 0 "\<lambda>t. []" ?d] by simp
  have len: "2 < length slots"
    unfolding eq by (simp del: upt_Suc)
  have st: "start (slots ! 2) = 1704877200000"
    unfolding eq default_slot_start_numeral
    by (simp add: setHours_def localMidnight_def msPerDay_def msPerHour_def)
  have "startTime ?A = start (slots ! 2)"
    unfolding st by (simp add: examplePopulated_def exampleAppointment_def)
  then have "?A \<in> set (getAppointmentsForSlot [?A] (slots ! 2))
      \<and> end' (slots ! (2 - 1)) = start (slots ! 2)
      \<and> ?A \<notin> set (getAppointmentsForSlot [?A] (slots ! (2 - 1)))"
    using b [rule_format, of 2 ?A] len by simp
  then show ?thesis
    using s st by (intro exI [of _ slots]) simp
qed

section \<open>The day's partition into slots\<close>

text \<open>
  Claim C2. Under the default configuration (8 h to 18 h, 30 minutes) the generator
  returns, for every reference date (and every offset and label rendering), exactly 20
  slots; each is 30 minutes long, each ends where the next starts, their starts are
  strictly increasing, no instant lies in two of them, the first starts at 8:00 and the
  last ends at 18:00 of the date's local day, and an instant lies in some slot exactly when
  it lies in the half-open window from 8:00 to 18:00.
\<close>

theorem timeSlots_default_partition:
  "\<exists>slots. timeSlots DEFAULT_CALENDAR_CONFIG tz fmt date = Some slots \<and> length slots = 20
     \<and> (\<forall>i<20. end' (slots ! i) - start (slots ! i) = 30 * msPerMinute)
     \<and> (\<forall>i<19. end' (slots ! i) = start (slots ! Suc i))
     \<and> sorted_wrt (<) (map start slots)
     \<and> (\<forall>i<20. \<forall>j<20. i \<noteq> j \<longrightarrow> (\<forall>t. \<not> (inSlot (slots ! i) t \<and> inSlot (slots ! j) t)))
     \<and> start (slots ! 0) = setHours tz date 8 0 0 0
     \<and> end' (slots ! 19) = setHours tz date 18 0 0 0
     \<and> (\<forall>t. (\<exists>i<20. inSlot (slots ! i) t)
            \<longleftrightarrow> setHours tz date 8 0 0 0 \<le> t \<and> t < setHours tz date 18 0 0 0)"
proof -
  let ?b = "setHours tz date 8 0 0 0"
  define slots where "slots = map (slotAt fmt ?b) [0..<20]"
  have nth: "slots ! i = slotAt fmt ?b i" if "i < 20" for i
    unfolding slots_def using that by (rule default_slots_nth)
  have 0: "timeSlots DEFAULT_CALENDAR_CONFIG tz fmt date = Some slots"
    unfolding slots_def by (rule timeSlots_default)
  have 1: "length slots = 20"
    unfolding slots_def by (simp del: upt_Suc)
  have 2: "\<forall>i<20. end' (slots ! i) - start (slots ! i) = 30 * msPerMinute"
    by (simp add: nth slotAt_def algebra_simps)
  have 3: "\<forall>i<19. end' (slots ! i) = start (slots ! Suc i)"
    by (simp add: nth slotAt_def algebra_simps)
  have 4: "sorted_wrt (<) (map start slots)"
    unfolding sorted_wrt_iff_nth_less using 1 by (simp add: nth slotAt_def msPerMinute_def)
  have 5: "\<forall>i<20. \<forall>j<20. i \<noteq> j \<longrightarrow> (\<forall>t. \<not> (inSlot (slots ! i) t \<and> inSlot (slots ! j) t))"
    using inSlot_slotAt_unique by (metis nth)
  have 6: "start (slots ! 0) = ?b"
    by (simp add: nth slotAt_def)
  have 7: "end' (slots ! 19) = setHours tz date 18 0 0 0"
    by (simp add: nth slotAt_def setHours_def msPerHour_def msPerMinute_def)
  have 8: "\<forall>t. (\<exists>i<20. inSlot (slots ! i) t) \<longleftrightarrow> ?b \<le> t \<and> t < setHours tz date 18 0 0 0"
  proof
    fix t
    have "(\<exists>i<20. inSlot (slots ! i) t) \<longleftrightarrow> (\<exists>i<20. inSlot (slotAt fmt ?b i) t)"
      using nth by auto
    then show "(\<exists>i<20. inSlot (slots ! i) t) \<longleftrightarrow> ?b \<le> t \<and> t < setHours tz date 18 0 0 0"
      unfolding setHours_18 inSlot_slotAt_window .
  qed
  from 0 1 2 3 4 5 6 7 8 show ?thesis
    by (intro exI [of _ slots] conjI)
qed


theorem timeSlots_default_partition_witness:
  "\<exists>slots. timeSlots DEFAULT_CALENDAR_CONFIG 0 (\<lambda>t. []) 1704844800000 = Some slots
     \<and> length slots = 20
     \<and> end' (slots ! 0) - start (slots ! 0) = 1800000
     \<and> end' (slots ! 0) = start (slots ! 1)
     \<and> start (slots ! 0) = 1704873600000
     \<and> end' (slots ! 19) = 1704909600000
     \<and> \<not> (inSlot (slots ! 2) 1704877200000 \<and> inSlot (slots ! 1) 1704877200000)
     \<and> (\<exists>i<20. inSlot (slots ! i) 1704877200000)"
proof -
  let ?d = "1704844800000 :: int"
  obtain slots where s: "timeSlots DEFAULT_CALENDAR_CONFIG 0 (\<lambda>t. []) ?d = Some slots"
      "length slots = 20"
      "\<forall>i<20. end' (slots ! i) - start (slots ! i) = 30 * msPerMinute"
      "\<forall>i<19. end' (slots ! i) = start (slots ! Suc i)"
      "\<forall>i<20. \<forall>j<20. i \<noteq> j \<longrightarrow> (\<forall>t. \<not> (inSlot (slots ! i) t \<and> inSlot (slots ! j) t))"
      "start (slots ! 0) = setHours 0 ?d 8 0 0 0"
      "end' (slots ! 19) = setHours 0 ?d 18 0 0 0"
      "\<forall>t. (\<exists>i<20. inSlot (slots ! i) t)
            \<longleftrightarrow> setHours 0 ?d 8 0 0 0 \<le> t \<and> t < setHours 0 ?d 18 0 0 0"
    using timeSlots_default_partition [of 0 "\<lambda>t. []" ?d] by blast
  have h: "setHours 0 ?d 8 0 0 0 = 1704873600000" "setHours 0 ?d 18 0 0 0 = 1704909600000"
    by (simp_all add: setHours_def localMidnight_def msPerDay_def msPerHour_def)
  have a: "end' (slots ! 0) - start (slots ! 0) = 1800000"
    using s(3) by (simp add: msPerMinute_def)
  have b: "end' (slots ! 0) = start (slots ! 1)"
    using s(4) by simp
  have c: "\<not> (inSlot (slots ! 2) 1704877200000 \<and> inSlot (slots ! 1) 1704877200000)"
  proof -
    have "(2::nat) < 20" "(1::nat) < 20" "(2::nat) \<noteq> 1" by simp_all
    then show ?thesis using s(5) by blast
  qed
  have d: "\<exists>i<20. inSlot (slots ! i) 1704877200000"
    using s(8) h by simp
  show ?thesis
    using s(1,2,6,7) h a b c d by (intro exI [of _ slots]) simp
qed

section \<open>Appointments outside the working hours\<close>

text \<open>
  Claim C10. The day view draws one row per generated slot, with the appointments that
  \<open>getAppointmentsForSlot\<close> returns for it, and draws the empty-state block exactly when
  the list of appointments it was given is empty. An appointment that starts before 8:00
  or at or after 18:00 of the displayed date is returned for none of the slots. So when
  the list is not empty and every populated appointment starts outside the window, all 20
  rows are empty and the empty-state block is not drawn.
\<close>

theorem DayView_outside_hours:
  "\<exists>slots r. timeSlots DEFAULT_CALENDAR_CONFIG tz fmt date = Some slots
     \<and> DayView getPopulatedAppointments DEFAULT_CALENDAR_CONFIG tz fmt appts date = Some r
     \<and> rows r = map (\<lambda>S. (S, getAppointmentsForSlot (getPopulatedAppointments appts) S)) slots
     \<and> emptyState r = (length appts = 0)
     \<and> (\<forall>A. startTime A < setHours tz date 8 0 0 0 \<or> setHours tz date 18 0 0 0 \<le> startTime A
           \<longrightarrow> (\<forall>S\<in>set slots. A \<notin> set (getAppointmentsForSlot (getPopulatedAppointments appts) S)))
     \<and> (appts \<noteq> []
          \<and> (\<forall>A\<in>set (getPopulatedAppointments appts).
                startTime A < setHours tz date 8 0 0 0 \<or> setHours tz date 18 0 0 0 \<le> startTime A)
           \<longrightarrow> length (rows r) = 20 \<and> (\<forall>row\<in>set (rows r). snd row = []) \<and> \<not> emptyState r)"
proof -
  let ?b = "setHours tz date 8 0 0 0"
  let ?pop = "getPopulatedAppointments appts"
  define slots where "slots = map (slotAt fmt ?b) [0..<20]"
  define r where "r = \<lparr>rows = map (\<lambda>S. (S, getAppointmentsForSlot ?pop S)) slots,
                        emptyState = (length appts = 0)\<rparr>"
  have len: "length slots = 20"
    unfolding slots_def by (simp del: upt_Suc)
  have 0: "timeSlots DEFAULT_CALENDAR_CONFIG tz fmt date = Some slots"
    unfolding slots_def by (rule timeSlots_default)
  have 1: "DayView getPopulatedAppointments DEFAULT_CALENDAR_CONFIG tz fmt appts date = Some r"
    by (simp add: DayView_def 0 r_def)
  have 2: "rows r = map (\<lambda>S. (S, getAppointmentsForSlot ?pop S)) slots"
    by (simp add: r_def)
  have 3: "emptyState r = (length appts = 0)"
    by (simp add: r_def)
  have out: "\<not> inSlot S t"
    if mem: "S \<in> set slots" and far: "t < ?b \<or> setHours tz date 18 0 0 0 \<le> t" for S t
  proof
    assume i: "inSlot S t"
    obtain k where "k < 20" "S = slotAt fmt ?b k"
      using mem unfolding slots_def by (auto simp del: upt_Suc)
    with i have "\<exists>i<20. inSlot (slotAt fmt ?b i) t" by blast
    then have "?b \<le> t \<and> t < ?b + 10 * msPerHour"
      unfolding inSlot_slotAt_window .
    with far show False
      unfolding setHours_18 by simp
  qed
  have 4: "\<forall>A. startTime A < ?b \<or> setHours tz date 18 0 0 0 \<le> startTime A
           \<longrightarrow> (\<forall>S\<in>set slots. A \<notin> set (getAppointmentsForSlot ?pop S))"
    using out by (simp add: set_getAppointmentsForSlot)
  have 5: "appts \<noteq> []
          \<and> (\<forall>A\<in>set ?pop. startTime A < ?b \<or> setHours tz date 18 0 0 0 \<le> startTime A)
           \<longrightarrow> length (rows r) = 20 \<and> (\<forall>row\<in>set (rows r). snd row = []) \<and> \<not> emptyState r"
  proof
    assume h: "appts \<noteq> []
          \<and> (\<forall>A\<in>set ?pop. startTime A < ?b \<or> setHours tz date 18 0 0 0 \<le> startTime A)"
    have "getAppointmentsForSlot ?pop S = []" if "S \<in> set slots" for S
    proof -
      have "set (getAppointmentsForSlot ?pop S) = {}"
        unfolding set_getAppointmentsForSlot using h out [OF that] by blast
      then show ?thesis by simp
    qed
    then have "\<forall>row\<in>set (rows r). snd row = []"
      unfolding 2 by auto
    then show "length (rows r) = 20 \<and> (\<forall>row\<in>set (rows r). snd row = []) \<and> \<not> emptyState r"
      using h len by (simp add: 2 3)
  qed
  from 0 1 2 3 4 5 show ?thesis
    by (intro exI [of _ slots] exI [of _ r] conjI)
qed

theorem DayView_outside_hours_witness:
  "\<exists>r. DayView exampleGetPopulatedAppointments DEFAULT_CALENDAR_CONFIG 0 (\<lambda>t. [])
          [exampleAppointment ''apt-7'' 1704870000000 1704871800000 ''checkup'' None] 1704844800000 = Some r
     \<and> length (rows r) = 20
     \<and> map snd (rows r) = replicate 20 []
     \<and> \<not> emptyState r"
proof -
  let ?d = "1704844800000 :: int"
  let ?appts = "[exampleAppointment ''apt-7'' 1704870000000 1704871800000 ''checkup'' None]"
  obtain slots r where
    r: "DayView exampleGetPopulatedAppointments DEFAULT_CALENDAR_CONFIG 0 (\<lambda>t. []) ?appts ?d = Some r"
    and e: "?appts \<noteq> []
          \<and> (\<forall>A\<in>set (exampleGetPopulatedAppointments ?appts).
                startTime A < setHours 0 ?d 8 0 0 0 \<or> setHours 0 ?d 18 0 0 0 \<le> startTime A)
           \<longrightarrow> length (rows r) = 20 \<and> (\<forall>row\<in>set (rows r). snd row = []) \<and> \<not> emptyState r"
    using DayView_outside_hours [of 0 "\<lambda>t. []" ?d exampleGetPopulatedAppointments ?appts] by blast
  have h: "setHours 0 ?d 8 0 0 0 = 1704873600000"
    by (simp add: setHours_def localMidnight_def msPerDay_def msPerHour_def)
  have "?appts \<noteq> []
          \<and> (\<forall>A\<in>set (exampleGetPopulatedAppointments ?appts).
                startTime A < setHours 0 ?d 8 0 0 0 \<or> setHours 0 ?d 18 0 0 0 \<le> startTime A)"
    unfolding h
    by (simp add: exampleGetPopulatedAppointments_def examplePopulated_def exampleAppointment_def)
  with e have f: "length (rows r) = 20" "\<forall>row\<in>set (rows r). snd row = []" "\<not> emptyState r"
    by blast+
  have "map snd (rows r) = replicate 20 []"
    using f(1,2) by (intro replicate_eqI) auto
  with r f show ?thesis
    by (intro exI [of _ r]) simp
qed


section \<open>The position of a card in its slot\<close>

text \<open>
  Claim C3. With the default slot duration of 30 minutes (row height 70, margin 4, minimum
  height 20), for an appointment whose start lies in the slot, \<open>getAppointmentPosition\<close>
  returns top = max(0, (minutesFromSlotStart / 30) * 70) and height =
  max(20, min((durationMinutes / 30) * 70, 70 - top - 4)). An appointment that starts 15
  minutes after the slot's start and lasts 45 minutes (9:15 to 10:00 in the slot from 9:00)
  gets top 35 and height 31. The pair depends only on the appointment's start and end
  and on the slot's start: no other appointment enters it.
\<close>

theorem getAppointmentPosition_home_slot:
  "(inSlot slot (startTime a) \<longrightarrow>
      top' (getAppointmentPosition DEFAULT_CALENDAR_CONFIG a slot)
        = max 0 ((minutesFromSlotStart a slot / 30) * 70)
      \<and> height (getAppointmentPosition DEFAULT_CALENDAR_CONFIG a slot)
        = max 20 (min ((durationMinutes a / 30) * 70)
                      (70 - top' (getAppointmentPosition DEFAULT_CALENDAR_CONFIG a slot) - 4)))
   \<and> (startTime a = start slot + 15 * msPerMinute \<and> endTime a = startTime a + 45 * msPerMinute \<longrightarrow>
        getAppointmentPosition DEFAULT_CALENDAR_CONFIG a slot = \<lparr>top' = 35, height = 31\<rparr>)
   \<and> (startTime a = startTime b \<and> endTime a = endTime b \<and> start slot = start slot' \<longrightarrow>
        getAppointmentPosition DEFAULT_CALENDAR_CONFIG a slot
          = getAppointmentPosition DEFAULT_CALENDAR_CONFIG b slot')"
proof (intro conjI impI)
  assume h: "inSlot slot (startTime a)"
  then have "0 \<le> minutesFromSlotStart a slot"
    by (simp add: inSlot_def minutesFromSlotStart_def)
  then have nn: "0 \<le> (minutesFromSlotStart a slot / 30) * 70"
    by simp
  show t: "top' (getAppointmentPosition DEFAULT_CALENDAR_CONFIG a slot)
        = max 0 ((minutesFromSlotStart a slot / 30) * 70)"
    by (simp add: getAppointmentPosition_def DEFAULT_CALENDAR_CONFIG_def Let_def minutesFromSlotStart_def)
  show "height (getAppointmentPosition DEFAULT_CALENDAR_CONFIG a slot)
        = max 20 (min ((durationMinutes a / 30) * 70)
                      (70 - top' (getAppointmentPosition DEFAULT_CALENDAR_CONFIG a slot) - 4))"
    unfolding t max_absorb2 [OF nn]
    by (simp add: getAppointmentPosition_def DEFAULT_CALENDAR_CONFIG_def Let_def
        minutesFromSlotStart_def durationMinutes_def)
next
  assume "startTime a = start slot + 15 * msPerMinute \<and> endTime a = startTime a + 45 * msPerMinute"
  then show "getAppointmentPosition DEFAULT_CALENDAR_CONFIG a slot = \<lparr>top' = 35, height = 31\<rparr>"
    by (simp add: getAppointmentPosition_def DEFAULT_CALENDAR_CONFIG_def Let_def msPerMinute_def)
next
  assume "startTime a = startTime b \<and> endTime a = endTime b \<and> start slot = start slot'"
  then show "getAppointmentPosition DEFAULT_CALENDAR_CONFIG a slot
          = getAppointmentPosition DEFAULT_CALENDAR_CONFIG b slot'"
    by (simp add: getAppointmentPosition_def)
qed

theorem getAppointmentPosition_home_slot_witness:
  "inSlot \<lparr>start = 1704877200000, end' = 1704879000000, label = ''9:00 AM''\<rparr>
     (startTime (exampleAppointment ''apt-1'' 1704878100000 1704880800000 ''checkup'' None))
   \<and> getAppointmentPosition DEFAULT_CALENDAR_CONFIG
        (exampleAppointment ''apt-1'' 1704878100000 1704880800000 ''checkup'' None)
        \<lparr>start = 1704877200000, end' = 1704879000000, label = ''9:00 AM''\<rparr>
      = \<lparr>top' = 35, height = 31\<rparr>
   \<and> max 0 ((minutesFromSlotStart (exampleAppointment ''apt-1'' 1704878100000 1704880800000 ''checkup'' None)
               \<lparr>start = 1704877200000, end' = 1704879000000, label = ''9:00 AM''\<rparr> / 30) * 70) = 35
   \<and> max 20 (min ((durationMinutes (exampleAppointment ''apt-1'' 1704878100000 1704880800000 ''checkup'' None) / 30) * 70)
                 (70 - 35 - 4)) = 31"
proof -
  let ?a = "exampleAppointment ''apt-1'' 1704878100000 1704880800000 ''checkup'' None"
  let ?s = "\<lparr>start = 1704877200000, end' = 1704879000000, label = ''9:00 AM''\<rparr>"
  have i: "inSlot ?s (startTime ?a)"
    by (simp add: inSlot_def exampleAppointment_def)
  have e: "startTime ?a = start ?s + 15 * msPerMinute \<and> endTime ?a = startTime ?a + 45 * msPerMinute"
    by (simp add: exampleAppointment_def msPerMinute_def)
  have p: "getAppointmentPosition DEFAULT_CALENDAR_CONFIG ?a ?s = \<lparr>top' = 35, height = 31\<rparr>"
    using getAppointmentPosition_home_slot [of ?s ?a ?a ?s] e by blast
  have "top' (getAppointmentPosition DEFAULT_CALENDAR_CONFIG ?a ?s)
        = max 0 ((minutesFromSlotStart ?a ?s / 30) * 70)
      \<and> height (getAppointmentPosition DEFAULT_CALENDAR_CONFIG ?a ?s)
        = max 20 (min ((durationMinutes ?a / 30) * 70)
                      (70 - top' (getAppointmentPosition DEFAULT_CALENDAR_CONFIG ?a ?s) - 4))"
    using getAppointmentPosition_home_slot [of ?s ?a ?a ?s] i by blast
  then have "max 0 ((minutesFromSlotStart ?a ?s / 30) * 70) = 35"
    "max 20 (min ((durationMinutes ?a / 30) * 70) (70 - 35 - 4)) = 31"
    unfolding p by simp_all
  with i p show ?thesis by blast
qed

section \<open>Duration and span\<close>

lemma Math_round_bounds:
  "x - 1 / 2 < of_int (Math_round x) \<and> of_int (Math_round x) \<le> x + 1 / 2"
  unfolding Math_round_def by linarith

lemma Math_round_minutes: "Math_round (of_int d / (1000 * 60)) = (d + 30000) div 60000"
proof -
  have "of_int d / (1000 * 60) + 1 / 2 = (of_int (d + 30000) :: rat) / of_int 60000"
    by (simp add: field_simps)
  then show ?thesis
    unfolding Math_round_def by (simp only: floor_divide_of_int_eq)
qed

text \<open>
  Claim C9. \<open>getAppointmentDuration\<close> is the appointment's length in minutes rounded to
  the nearest whole minute (within half a minute of it, a half rounded up), that is,
  the length in milliseconds plus 30000 divided by 60000 with the integer division.
  \<open>getAppointmentSlotSpan\<close> is the ceiling of that duration divided by 30: the least
  number of half-hour slots that cover it. The bucketing reads no end time: replacing the
  end times of the populated appointments, and with them every duration and span, leaves
  the appointments returned for a slot the same ones.
\<close>

theorem duration_and_span:
  "durationMinutes a - 1 / 2 < of_int (getAppointmentDuration a)
   \<and> of_int (getAppointmentDuration a) \<le> durationMinutes a + 1 / 2
   \<and> getAppointmentDuration a = (endTime a - startTime a + 30000) div 60000
   \<and> getAppointmentSlotSpan DEFAULT_CALENDAR_CONFIG a = \<lceil>(of_int (getAppointmentDuration a) :: rat) / 30\<rceil>
   \<and> 30 * (getAppointmentSlotSpan DEFAULT_CALENDAR_CONFIG a - 1) < getAppointmentDuration a
   \<and> getAppointmentDuration a \<le> 30 * getAppointmentSlotSpan DEFAULT_CALENDAR_CONFIG a
   \<and> getAppointmentsForSlot (map (\<lambda>p. p\<lparr>endTime := e p\<rparr>) populatedAppointments) slot
        = map (\<lambda>p. p\<lparr>endTime := e p\<rparr>) (getAppointmentsForSlot populatedAppointments slot)"
proof -
  let ?x = "durationMinutes a"
  have d: "getAppointmentDuration a = Math_round ?x"
    by (simp add: getAppointmentDuration_def durationMinutes_def Let_def)
  have 1: "?x - 1 / 2 < of_int (getAppointmentDuration a)"
    and 2: "of_int (getAppointmentDuration a) \<le> ?x + 1 / 2"
    unfolding d using Math_round_bounds [of ?x] by simp_all
  have 3: "getAppointmentDuration a = (endTime a - startTime a + 30000) div 60000"
    unfolding getAppointmentDuration_def Let_def by (rule Math_round_minutes)
  have 4: "getAppointmentSlotSpan DEFAULT_CALENDAR_CONFIG a = \<lceil>(of_int (getAppointmentDuration a) :: rat) / 30\<rceil>"
    by (simp add: getAppointmentSlotSpan_def Math_ceil_def DEFAULT_CALENDAR_CONFIG_def Let_def)
  let ?q = "(of_int (getAppointmentDuration a) :: rat) / 30"
  define c where "c = \<lceil>?q\<rceil>"
  define n where "n = getAppointmentDuration a"
  have "of_int c - 1 < (of_int n :: rat) / 30" "(of_int n :: rat) / 30 \<le> of_int c"
    unfolding c_def n_def by linarith+
  then have "(of_int (30 * (c - 1)) :: rat) < of_int n" "(of_int n :: rat) \<le> of_int (30 * c)"
    by simp_all
  then have "30 * (c - 1) < n" "n \<le> 30 * c"
    unfolding of_int_less_iff of_int_le_iff by simp_all
  then have 5: "30 * (getAppointmentSlotSpan DEFAULT_CALENDAR_CONFIG a - 1) < getAppointmentDuration a"
    and 6: "getAppointmentDuration a \<le> 30 * getAppointmentSlotSpan DEFAULT_CALENDAR_CONFIG a"
    unfolding 4 c_def n_def by simp_all
  have 7: "getAppointmentsForSlot (map (\<lambda>p. p\<lparr>endTime := e p\<rparr>) populatedAppointments) slot
        = map (\<lambda>p. p\<lparr>endTime := e p\<rparr>) (getAppointmentsForSlot populatedAppointments slot)"
    by (simp add: getAppointmentsForSlot_def filter_map comp_def)
  from 1 2 3 4 5 6 7 show ?thesis by blast
qed


section \<open>The search filter\<close>

lemma trim_empty_iff: "trim s = [] \<longleftrightarrow> (\<forall>c\<in>set s. isWhiteSpace c)"
proof
  assume "trim s = []"
  then have a: "\<forall>c\<in>set (dropWhile isWhiteSpace s). isWhiteSpace c"
    by (simp add: trim_def)
  have "dropWhile isWhiteSpace s = []"
  proof (rule ccontr)
    assume n: "dropWhile isWhiteSpace s \<noteq> []"
    then have "\<not> isWhiteSpace (hd (dropWhile isWhiteSpace s))"
      by (rule hd_dropWhile)
    with a n show False by simp
  qed
  then show "\<forall>c\<in>set s. isWhiteSpace c"
    by simp
next
  assume "\<forall>c\<in>set s. isWhiteSpace c"
  then have d: "dropWhile isWhiteSpace s = []"
    by simp
  show "trim s = []"
    unfolding trim_def d by simp
qed

lemma includes'_iff_sublist: "includes' s q \<longleftrightarrow> sublist q s"
  by (induction s) (auto simp add: sublist_Cons_right)

lemma count_list_filter_le: "count_list (filter P xs) x \<le> count_list xs x"
  by (induction xs) auto

text \<open>
  Claim C4. For every query and every fetched list, the list handed to the views is a
  subsequence of the fetched list: the same relative order, every record one of the
  fetched list's, and none more often than there. When the query is empty or all white
  space, it is the fetched list itself.
\<close>

theorem ScheduleView_appointments_subseq:
  "subseq (ScheduleView_appointments getPopulatedAppointments q L) L
   \<and> set (ScheduleView_appointments getPopulatedAppointments q L) \<subseteq> set L
   \<and> count_list (ScheduleView_appointments getPopulatedAppointments q L) x \<le> count_list L x
   \<and> ((\<forall>c\<in>set q. isWhiteSpace c) \<longrightarrow> ScheduleView_appointments getPopulatedAppointments q L = L)"
proof (cases "trim q = []")
  case True
  then have "ScheduleView_appointments getPopulatedAppointments q L = L"
    by (simp add: ScheduleView_appointments_def)
  then show ?thesis by simp
next
  case False
  then obtain P where f: "ScheduleView_appointments getPopulatedAppointments q L = filter P L"
    by (simp add: ScheduleView_appointments_def Let_def)
  have "subseq (filter P L) L" "set (filter P L) \<subseteq> set L"
    "count_list (filter P L) x \<le> count_list L x"
    by (simp_all add: count_list_filter_le)
  moreover have "\<not> (\<forall>c\<in>set q. isWhiteSpace c)"
    using False unfolding trim_empty_iff .
  ultimately show ?thesis
    unfolding f by blast
qed

theorem ScheduleView_appointments_subseq_witness:
  "ScheduleView_appointments exampleGetPopulatedAppointments [CHR '' '', CHR 0x09]
       [exampleAppointment ''apt-1'' 1704877200000 1704879000000 ''checkup'' None,
        exampleAppointment ''apt-2'' 1704880800000 1704882600000 ''consultation'' (Some ''Bring reports'')]
     = [exampleAppointment ''apt-1'' 1704877200000 1704879000000 ''checkup'' None,
        exampleAppointment ''apt-2'' 1704880800000 1704882600000 ''consultation'' (Some ''Bring reports'')]
   \<and> subseq (ScheduleView_appointments exampleGetPopulatedAppointments ''smith''
       [exampleAppointment ''apt-1'' 1704877200000 1704879000000 ''checkup'' None,
        exampleAppointment ''apt-2'' 1704880800000 1704882600000 ''consultation'' (Some ''Bring reports'')])
       [exampleAppointment ''apt-1'' 1704877200000 1704879000000 ''checkup'' None,
        exampleAppointment ''apt-2'' 1704880800000 1704882600000 ''consultation'' (Some ''Bring reports'')]"
proof -
  let ?L = "[exampleAppointment ''apt-1'' 1704877200000 1704879000000 ''checkup'' None,
        exampleAppointment ''apt-2'' 1704880800000 1704882600000 ''consultation'' (Some ''Bring reports'')]"
  have "\<forall>c\<in>set [CHR '' '', CHR 0x09]. isWhiteSpace c"
    by (simp add: isWhiteSpace_def)
  then show ?thesis
    using ScheduleView_appointments_subseq [of exampleGetPopulatedAppointments "[CHR '' '', CHR 0x09]" ?L]
      ScheduleView_appointments_subseq [of exampleGetPopulatedAppointments "''smith''" ?L]
    by blast
qed

lemma matchesQuery_iff:
  "q \<noteq> [] \<Longrightarrow> matchesQuery (toLowerCase q) p \<longleftrightarrow> matchesNameTypeNotes q p"
  by (auto simp add: matchesQuery_def matchesNameTypeNotes_def containsIgnoringCase_def
      includes'_iff_sublist toLowerCase_def split: option.splits)

text \<open>
  Claim C5, as amended. For a query that is not blank, an appointment is in the list
  handed to the views exactly when it is in the fetched list and some populated record
  with its id contains the query, as a case-insensitive substring, in the patient's name,
  in the appointment's type value (the key the record stores, not the display label of
  that type) or in the notes.
\<close>

theorem ScheduleView_appointments_retained:
  "trim q \<noteq> [] \<Longrightarrow>
     apt \<in> set (ScheduleView_appointments getPopulatedAppointments q L)
       \<longleftrightarrow> apt \<in> set L \<and> (\<exists>p\<in>set (getPopulatedAppointments L). id' p = id' apt \<and> matchesNameTypeNotes q p)"
proof -
  assume n: "trim q \<noteq> []"
  then have "q \<noteq> []"
    by (auto simp add: trim_def)
  then show ?thesis
    using n by (auto simp add: ScheduleView_appointments_def Let_def list_ex_iff matchesQuery_iff)
qed

theorem ScheduleView_appointments_retained_witness:
  "trim ''SMITH'' \<noteq> []
   \<and> set (ScheduleView_appointments exampleGetPopulatedAppointments ''SMITH''
        [exampleAppointment ''apt-1'' 1704877200000 1704879000000 ''checkup'' None])
     = {exampleAppointment ''apt-1'' 1704877200000 1704879000000 ''checkup'' None}
   \<and> matchesNameTypeNotes ''SMITH''
        (examplePopulated (exampleAppointment ''apt-1'' 1704877200000 1704879000000 ''checkup'' None))"
proof -
  let ?a = "exampleAppointment ''apt-1'' 1704877200000 1704879000000 ''checkup'' None"
  have t: "trim ''SMITH'' \<noteq> []"
    by (simp add: trim_def isWhiteSpace_def)
  have m: "matchesNameTypeNotes ''SMITH'' (examplePopulated ?a)"
    by code_simp
  have "?a \<in> set (ScheduleView_appointments exampleGetPopulatedAppointments ''SMITH'' [?a])"
    using ScheduleView_appointments_retained [OF t, of ?a exampleGetPopulatedAppointments "[?a]"] m
    by (simp add: exampleGetPopulatedAppointments_def examplePopulated_def)
  moreover have "set (ScheduleView_appointments exampleGetPopulatedAppointments ''SMITH'' [?a]) \<subseteq> {?a}"
    using ScheduleView_appointments_retained [OF t, of _ exampleGetPopulatedAppointments "[?a]"]
    by auto
  ultimately show ?thesis
    using t m by blast
qed

text \<open>
  Claim C5 as the spec words it matches against the type's display label. With a label
  table that shows the type \<open>checkup\<close> as ``General Checkup'', the query \<open>general\<close> is a
  case-insensitive substring of the label of the one populated record, and the filter
  retains nothing.
\<close>

theorem ScheduleView_appointments_label_counterexample:
  "trim ''general'' \<noteq> []
   \<and> matchesNameLabelNotes exampleLabelOf ''general''
        (examplePopulated (exampleAppointment ''apt-1'' 1704877200000 1704879000000 ''checkup'' None))
   \<and> exampleGetPopulatedAppointments [exampleAppointment ''apt-1'' 1704877200000 1704879000000 ''checkup'' None]
       = [examplePopulated (exampleAppointment ''apt-1'' 1704877200000 1704879000000 ''checkup'' None)]
   \<and> ScheduleView_appointments exampleGetPopulatedAppointments ''general''
        [exampleAppointment ''apt-1'' 1704877200000 1704879000000 ''checkup'' None] = []"
proof -
  let ?a = "exampleAppointment ''apt-1'' 1704877200000 1704879000000 ''checkup'' None"
  have t: "trim ''general'' \<noteq> []"
    by (simp add: trim_def isWhiteSpace_def)
  have m: "matchesNameLabelNotes exampleLabelOf ''general'' (examplePopulated ?a)"
    by code_simp
  have p: "exampleGetPopulatedAppointments [?a] = [examplePopulated ?a]"
    by (simp add: exampleGetPopulatedAppointments_def)
  have "\<not> matchesQuery (toLowerCase ''general'') (examplePopulated ?a)"
    by code_simp
  then have r: "ScheduleView_appointments exampleGetPopulatedAppointments ''general'' [?a] = []"
    using t by (simp add: ScheduleView_appointments_def p)
  from t m p r show ?thesis by blast
qed


section \<open>A fetch cycle whose store call throws\<close>

text \<open>
  One run of the effect body. When the query throws, the run leaves an error that is not
  null (the thrown \<^verbatim>\<open>Error\<close>, or a new one with the message ``Failed to fetch
  appointments'' when something else was thrown), the empty list of appointments whatever
  the list was before, and loading false, and the query is the only call it made to the
  service. When the query returns and the sort throws, the state is the same and the run
  made the query and the sort, once each.
\<close>

lemma fetchAppointments_store_throws:
  "(fst (queryStore service params) = Inl err \<longrightarrow>
      fetchAppointments service params st =
        (\<lparr>appointments = [], loading = False,
          error = Some (case err of ThrownError e \<Rightarrow> e
                                  | ThrownOther \<Rightarrow> Error ''Failed to fetch appointments'')\<rparr>,
         [snd (queryStore service params)])
      \<and> error (fst (fetchAppointments service params st)) \<noteq> None)
   \<and> (fst (queryStore service params) = Inr fetched
        \<and> sortAppointmentsByTime service fetched = Inl err \<longrightarrow>
      fetchAppointments service params st =
        (\<lparr>appointments = [], loading = False,
          error = Some (case err of ThrownError e \<Rightarrow> e
                                  | ThrownOther \<Rightarrow> Error ''Failed to fetch appointments'')\<rparr>,
         [snd (queryStore service params), CallSort fetched])
      \<and> error (fst (fetchAppointments service params st)) \<noteq> None)"
  by (cases "queryStore service params")
    (simp add: fetchAppointments_def Let_def catchBlock_def finallyBlock_def)

lemma renders_settled:
  "\<not> renderScheduled inst \<Longrightarrow> renders n tz service sortedArray props inst = inst"
  by (cases n) simp_all

text \<open>
  Claim C6, on the code. Take a service whose range query throws for the week's bounds,
  and ScheduleView in the week view. Every render is followed by a run of the effect: the
  end of the range is a new \<^verbatim>\<open>Date\<close> on each render, so the dependencies never are what
  they were, and each failed run puts a new empty array in the \<^verbatim>\<open>appointments\<close> cell,
  which schedules the next render. After \<open>n\<close> renders the failed query has been issued
  \<open>n\<close> times and a render is scheduled again, for every \<open>n\<close>: the failed fetch is repeated
  without end. After each run the cells are as the claim says: the error set, no
  appointments, loading false. In the day view, where both bounds are undefined, the query
  that throws is issued once however many renders are allowed, and after the second render
  none is scheduled.
\<close>

theorem useAppointments_refetch_on_render:
  "(getAppointmentsByDoctorAndDateRange service d (getWeekStart tz t) (addDays (getWeekStart tz t) 6)
      = Inl err \<longrightarrow>
      issued (renders n tz service sortedArray
                \<lparr>props_doctorId = d, props_dateRef = r, props_date = t, props_view = Week\<rparr> mount)
        = replicate n (CallByDoctorAndDateRange d (getWeekStart tz t) (addDays (getWeekStart tz t) 6))
      \<and> renderScheduled (renders n tz service sortedArray
                \<lparr>props_doctorId = d, props_dateRef = r, props_date = t, props_view = Week\<rparr> mount)
      \<and> (0 < n \<longrightarrow>
           cells (renders n tz service sortedArray
                \<lparr>props_doctorId = d, props_dateRef = r, props_date = t, props_view = Week\<rparr> mount)
             = \<lparr>appointments = [], loading = False,
                error = Some (case err of ThrownError e \<Rightarrow> e
                                        | ThrownOther \<Rightarrow> Error ''Failed to fetch appointments'')\<rparr>))
   \<and> (getAppointmentsByDoctorAndDate service d t = Inl err \<and> 0 < n \<longrightarrow>
      issued (renders n tz service sortedArray
                \<lparr>props_doctorId = d, props_dateRef = r, props_date = t, props_view = Day\<rparr> mount)
        = [CallByDoctorAndDate d t]
      \<and> (1 < n \<longrightarrow> \<not> renderScheduled (renders n tz service sortedArray
                \<lparr>props_doctorId = d, props_dateRef = r, props_date = t, props_view = Day\<rparr> mount))
      \<and> cells (renders n tz service sortedArray
                \<lparr>props_doctorId = d, props_dateRef = r, props_date = t, props_view = Day\<rparr> mount)
             = \<lparr>appointments = [], loading = False,
                error = Some (case err of ThrownError e \<Rightarrow> e
                                        | ThrownOther \<Rightarrow> Error ''Failed to fetch appointments'')\<rparr>)"
proof (intro conjI impI)
  let ?ws = "getWeekStart tz t"
  let ?call = "CallByDoctorAndDateRange d ?ws (addDays ?ws 6)"
  let ?props = "\<lparr>props_doctorId = d, props_dateRef = r, props_date = t, props_view = Week\<rparr>"
  let ?E = "case err of ThrownError e \<Rightarrow> e | ThrownOther \<Rightarrow> Error ''Failed to fetch appointments''"
  let ?failed = "\<lparr>appointments = [], loading = False, error = Some ?E\<rparr>"
  assume q: "getAppointmentsByDoctorAndDateRange service d ?ws (addDays ?ws 6) = Inl err"
  define S where "S = (\<lambda>k. \<lparr>cells = ?failed, appointmentsArray = 2 * k + 3, weekStartRef = 1,
      lastDeps = Some [DepString d, DepObject r, DepObject 1, DepObject (2 * k + 2)],
      nextRef = 2 * k + 4, issued = replicate (Suc k) ?call, renderScheduled = True\<rparr>)"
  have qs: "queryStore service (ScheduleView_params tz d t Week) = (Inl err, ?call)"
    using q by (simp add: queryStore_def ScheduleView_params_def Let_def)
  have f: "fetchAppointments service (ScheduleView_params tz d t Week) st = (?failed, [?call])" for st
    using fetchAppointments_store_throws [of service "ScheduleView_params tz d t Week" err st] qs
    by simp
  have first: "renderPass tz service sortedArray ?props mount = S 0"
    by (simp add: renderPass_def mount_def effectDeps_def Let_def f S_def)
  have step: "renderPass tz service sortedArray ?props (S k) = S (Suc k)" for k
    by (simp add: renderPass_def effectDeps_def Let_def f S_def replicate_append_same)
  have run: "renders n tz service sortedArray ?props (S k) = S (k + n)" for n k
  proof (induction n arbitrary: k)
    case 0
    show ?case by simp
  next
    case (Suc n)
    have "renderScheduled (S k)" by (simp add: S_def)
    then show ?case using Suc [of "Suc k"] by (simp add: step)
  qed
  have ms: "renderScheduled mount"
    by (simp add: mount_def)
  have all: "renders (Suc m) tz service sortedArray ?props mount = S m" for m
    using run [of m 0] ms by (simp add: first)
  show "issued (renders n tz service sortedArray ?props mount) = replicate n ?call"
  proof (cases n)
    case 0
    then show ?thesis by (simp add: mount_def)
  next
    case (Suc m)
    show ?thesis unfolding Suc all by (simp add: S_def)
  qed
  show "renderScheduled (renders n tz service sortedArray ?props mount)"
  proof (cases n)
    case 0
    then show ?thesis by (simp add: ms)
  next
    case (Suc m)
    show ?thesis unfolding Suc all by (simp add: S_def)
  qed
  show "cells (renders n tz service sortedArray ?props mount) = ?failed" if pos: "0 < n"
  proof -
    obtain m where n: "n = Suc m"
      using pos by (cases n) simp_all
    show ?thesis unfolding n all by (simp add: S_def)
  qed
next
  let ?call = "CallByDoctorAndDate d t"
  let ?props = "\<lparr>props_doctorId = d, props_dateRef = r, props_date = t, props_view = Day\<rparr>"
  let ?E = "case err of ThrownError e \<Rightarrow> e | ThrownOther \<Rightarrow> Error ''Failed to fetch appointments''"
  let ?failed = "\<lparr>appointments = [], loading = False, error = Some ?E\<rparr>"
  assume a: "getAppointmentsByDoctorAndDate service d t = Inl err \<and> 0 < n"
  define D where "D = (\<lambda>b. \<lparr>cells = ?failed, appointmentsArray = 2, weekStartRef = 1,
      lastDeps = Some [DepString d, DepObject r, DepUndefined, DepUndefined],
      nextRef = 3, issued = [?call], renderScheduled = b\<rparr>)"
  have qs: "queryStore service (ScheduleView_params tz d t Day) = (Inl err, ?call)"
    using a by (simp add: queryStore_def ScheduleView_params_def Let_def)
  have f: "fetchAppointments service (ScheduleView_params tz d t Day) st = (?failed, [?call])" for st
    using fetchAppointments_store_throws [of service "ScheduleView_params tz d t Day" err st] qs
    by simp
  have first: "renderPass tz service sortedArray ?props mount = D True"
    by (simp add: renderPass_def mount_def effectDeps_def Let_def f D_def)
  have second: "renderPass tz service sortedArray ?props (D True) = D False"
    by (simp add: renderPass_def effectDeps_def Let_def D_def)
  have ms: "renderScheduled mount"
    by (simp add: mount_def)
  have ds: "renderScheduled (D True)"
    by (simp add: D_def)
  have one: "renders (Suc 0) tz service sortedArray ?props mount = D True"
    using ms by (simp add: first)
  have more: "renders (Suc (Suc m)) tz service sortedArray ?props mount = D False" for m
  proof -
    have "renders (Suc (Suc m)) tz service sortedArray ?props mount
        = renders m tz service sortedArray ?props (D False)"
      using ms ds by (simp add: first second)
    also have "\<dots> = D False"
      by (rule renders_settled) (simp add: D_def)
    finally show ?thesis .
  qed
  obtain m where n: "n = Suc m"
    using a by (cases n) simp_all
  have dn: "renders n tz service sortedArray ?props mount = D (m = 0)"
    unfolding n using one more by (cases m) simp_all
  show "issued (renders n tz service sortedArray ?props mount) = [?call]"
    unfolding dn by (simp add: D_def)
  show "cells (renders n tz service sortedArray ?props mount) = ?failed"
    unfolding dn by (simp add: D_def)
  show "\<not> renderScheduled (renders n tz service sortedArray ?props mount)" if "1 < n"
    using that unfolding dn by (simp add: D_def n)
qed


theorem useAppointments_refetch_on_render_witness:
  "getAppointmentsByDoctorAndDateRange failingService ''doc-1'' 1704672000000 1705190400000
     = Inl (ThrownError (Error ''store unreachable''))
   \<and> issued (renders 3 0 failingService (\<lambda>k. k)
        \<lparr>props_doctorId = ''doc-1'', props_dateRef = 7, props_date = 1704844800000, props_view = Week\<rparr>
        mount)
     = [CallByDoctorAndDateRange ''doc-1'' 1704672000000 1705190400000,
        CallByDoctorAndDateRange ''doc-1'' 1704672000000 1705190400000,
        CallByDoctorAndDateRange ''doc-1'' 1704672000000 1705190400000]
   \<and> renderScheduled (renders 3 0 failingService (\<lambda>k. k)
        \<lparr>props_doctorId = ''doc-1'', props_dateRef = 7, props_date = 1704844800000, props_view = Week\<rparr>
        mount)
   \<and> cells (renders 3 0 failingService (\<lambda>k. k)
        \<lparr>props_doctorId = ''doc-1'', props_dateRef = 7, props_date = 1704844800000, props_view = Week\<rparr>
        mount)
     = \<lparr>appointments = [], loading = False, error = Some (Error ''store unreachable'')\<rparr>
   \<and> issued (renders 3 0 failingService (\<lambda>k. k)
        \<lparr>props_doctorId = ''doc-1'', props_dateRef = 7, props_date = 1704844800000, props_view = Day\<rparr>
        mount)
     = [CallByDoctorAndDate ''doc-1'' 1704844800000]
   \<and> \<not> renderScheduled (renders 3 0 failingService (\<lambda>k. k)
        \<lparr>props_doctorId = ''doc-1'', props_dateRef = 7, props_date = 1704844800000, props_view = Day\<rparr>
        mount)"
proof -
  let ?d = "1704844800000 :: int"
  have w: "getWeekStart 0 ?d = 1704672000000" "addDays 1704672000000 6 = 1705190400000"
    by (simp_all add: getWeekStart_def startOfWeek_def getDay_def setHours_def localMidnight_def
        addDays_def setDatePlus_def msPerDay_def Let_def)
  have q: "getAppointmentsByDoctorAndDateRange failingService ''doc-1'' 1704672000000 1705190400000
      = Inl (ThrownError (Error ''store unreachable''))"
    by (simp add: failingService_def)
  have p: "getAppointmentsByDoctorAndDate failingService ''doc-1'' ?d = Inl ThrownOther \<and> (0::nat) < 3"
    by (simp add: failingService_def)
  have three: "replicate 3 c = [c, c, c]" for c :: serviceCall
    by (simp add: numeral_3_eq_3)
  show ?thesis
    using useAppointments_refetch_on_render
        [of failingService "''doc-1''" 0 ?d "ThrownError (Error ''store unreachable'')" 3 "\<lambda>k. k" 7]
      useAppointments_refetch_on_render
        [of failingService "''doc-1''" 0 ?d ThrownOther 3 "\<lambda>k. k" 7]
      q p
    unfolding w three by simp
qed

section \<open>The range of the week view\<close>

lemma localMidnight_idem:
  "localMidnight tz (localMidnight tz t + n * msPerDay) = localMidnight tz t + n * msPerDay"
proof -
  have e: "localMidnight tz t + n * msPerDay + tz = ((t + tz) div msPerDay + n) * msPerDay"
    by (simp add: localMidnight_def minus_mod_eq_div_mult algebra_simps)
  have "(localMidnight tz t + n * msPerDay + tz) mod msPerDay = 0"
    unfolding e by simp
  then show ?thesis
    unfolding localMidnight_def [of tz "localMidnight tz t + n * msPerDay"] by simp
qed

lemma getWeekStart_midnight: "localMidnight tz (getWeekStart tz d) = getWeekStart tz d"
  unfolding getWeekStart_def startOfWeek_def Let_def setHours_def
  using localMidnight_idem [of tz _ 0] by simp

text \<open>
  Claim C7, on the code. In the week view ScheduleView passes \<open>addDays(weekStartDate, 6)\<close>
  as the end of the range: the midnight that begins the seventh day, not its end. An
  instant at 15:00 of that day is outside the range ScheduleView asks for, and inside the
  range that the hook for the week view, \<open>useWeekViewAppointments\<close>, builds from the same
  week start, whose end is 23:59:59.999 of the seventh day. For the week of Wednesday
  10 January 2024 (offset 0) the range runs from Monday 8 January 00:00 to Sunday
  14 January 00:00, and Sunday 15:00 is not in it.
\<close>

theorem ScheduleView_week_range_end:
  "endDate (ScheduleView_params tz doctor_Id selectedDate Week)
     = Some (getWeekStart tz selectedDate + 6 * msPerDay)
   \<and> localMidnight tz (getWeekStart tz selectedDate + 6 * msPerDay)
     = getWeekStart tz selectedDate + 6 * msPerDay
   \<and> \<not> inQueriedRange (ScheduleView_params tz doctor_Id selectedDate Week)
         (getWeekStart tz selectedDate + 6 * msPerDay + 15 * msPerHour)
   \<and> endDate (useWeekViewAppointments_params tz doctor_Id (getWeekStart tz selectedDate))
     = Some (getWeekStart tz selectedDate + 6 * msPerDay + (msPerDay - 1))
   \<and> inQueriedRange (useWeekViewAppointments_params tz doctor_Id (getWeekStart tz selectedDate))
         (getWeekStart tz selectedDate + 6 * msPerDay + 15 * msPerHour)
   \<and> ScheduleView_params 0 ''doc-1'' 1704844800000 Week
       = \<lparr>param_doctorId = ''doc-1'', param_date = 1704844800000,
          startDate = Some 1704672000000, endDate = Some 1705190400000\<rparr>
   \<and> \<not> inQueriedRange (ScheduleView_params 0 ''doc-1'' 1704844800000 Week) 1705244400000
   \<and> endDate (useWeekViewAppointments_params 0 ''doc-1'' 1704672000000) = Some 1705276799999"
proof -
  let ?w = "getWeekStart tz selectedDate"
  have 1: "endDate (ScheduleView_params tz doctor_Id selectedDate Week) = Some (?w + 6 * msPerDay)"
    by (simp add: ScheduleView_params_def Let_def addDays_def setDatePlus_def)
  have 2: "localMidnight tz (?w + 6 * msPerDay) = ?w + 6 * msPerDay"
    using localMidnight_idem [of tz ?w 6] getWeekStart_midnight [of tz selectedDate] by simp
  have 3: "\<not> inQueriedRange (ScheduleView_params tz doctor_Id selectedDate Week)
         (?w + 6 * msPerDay + 15 * msPerHour)"
    by (simp add: inQueriedRange_def ScheduleView_params_def Let_def addDays_def setDatePlus_def
        msPerHour_def)
  have 4: "endDate (useWeekViewAppointments_params tz doctor_Id ?w)
     = Some (?w + 6 * msPerDay + (msPerDay - 1))"
    using 2 by (simp add: useWeekViewAppointments_params_def Let_def setHours_def setDatePlus_def
        msPerDay_def msPerHour_def msPerMinute_def)
  have 5: "inQueriedRange (useWeekViewAppointments_params tz doctor_Id ?w)
         (?w + 6 * msPerDay + 15 * msPerHour)"
    unfolding inQueriedRange_def 4
    by (simp add: useWeekViewAppointments_params_def Let_def msPerDay_def msPerHour_def)
  have 6: "ScheduleView_params 0 ''doc-1'' 1704844800000 Week
       = \<lparr>param_doctorId = ''doc-1'', param_date = 1704844800000,
          startDate = Some 1704672000000, endDate = Some 1705190400000\<rparr>"
    by (simp add: ScheduleView_params_def Let_def addDays_def setDatePlus_def getWeekStart_def
        startOfWeek_def getDay_def setHours_def localMidnight_def msPerDay_def)
  have 7: "\<not> inQueriedRange (ScheduleView_params 0 ''doc-1'' 1704844800000 Week) 1705244400000"
    unfolding 6 by (simp add: inQueriedRange_def)
  have 8: "endDate (useWeekViewAppointments_params 0 ''doc-1'' 1704672000000) = Some 1705276799999"
    by (simp add: useWeekViewAppointments_params_def Let_def setHours_def setDatePlus_def
        localMidnight_def msPerDay_def msPerHour_def msPerMinute_def)
  from 1 2 3 4 5 6 7 8 show ?thesis by blast
qed


end
